theory Spec2Isabelle
  imports Main
begin

section \<open>The dashboard of map2poster (src/main.py)\<close>

text \<open>
  The repository's visible code is one Streamlit script. It reads the sidebar widgets,
  resolves a point (an explicit override or a geocoded place), loads a theme, makes a
  temporary file, optionally loads fonts and calls the poster routine. The routines it
  imports from the package (\<^verbatim>\<open>get_coordinates\<close>, \<^verbatim>\<open>load_theme\<close>, \<^verbatim>\<open>load_fonts\<close>,
  \<^verbatim>\<open>create_poster\<close>, \<^verbatim>\<open>CACHE_DIR\<close>) are not in the source tree; here they are the fields of
  an environment record, each a function on an abstract world \<open>'w\<close> (disk, network) that
  may raise. The type \<open>'f\<close> stands for Python's float, \<open>'t\<close> for a loaded theme and
  \<open>'n\<close> for whatever \<^verbatim>\<open>load_fonts\<close> returns.
\<close>

subsection \<open>Data\<close>

datatype error =
    ValueError string
  | ResolutionError string string
  | ThemeNotFoundError string
  | NetworkDataError
  | RenderError
  | OSError

text \<open>The options of the "Download Format" select box.\<close>

datatype fmt = Png | Pdf | Svg

fun fmt_name :: "fmt \<Rightarrow> string" where
  "fmt_name Png = ''png''"
| "fmt_name Pdf = ''pdf''"
| "fmt_name Svg = ''svg''"

text \<open>The values of the sidebar widgets in one run of the script.\<close>

record 'f inputs =
  city :: string
  country :: string
  override_lat :: string
  override_lon :: string
  selected_theme :: string
  dist :: int
  width :: 'f
  height :: 'f
  display_city :: string
  display_country :: string
  font_family :: string
  live_mode :: bool
  output_format :: fmt

text \<open>The keyword arguments of the call \<^verbatim>\<open>CreatePoster(...)\<close>.\<close>

record ('f, 't, 'n) poster_args =
  kw_city :: string
  kw_country :: string
  kw_point :: "'f \<times> 'f"
  kw_dist :: int
  kw_output_file :: string
  kw_output_format :: fmt
  kw_theme :: 't
  kw_width :: 'f
  kw_height :: 'f
  kw_display_city :: "string option"
  kw_display_country :: "string option"
  kw_fonts :: "'n option"
  kw_dpi :: int

text \<open>
  Instrumentation: the calls the script makes, in order. \<open>GetCachedCoordinates\<close> is
  entry into the memoised wrapper, \<open>GetCoordinates\<close> the call of the package's resolver
  behind it; likewise \<open>GetCachedTheme\<close> and \<open>LoadTheme\<close>.
\<close>

datatype ('f, 't, 'n) event =
    GetCachedCoordinates string string
  | GetCoordinates string string
  | GetCachedTheme string
  | LoadTheme string
  | NamedTemporaryFile string
  | LoadFonts string
  | CreatePoster "('f, 't, 'n) poster_args"
  | Rmtree
  | Mkdir
  | StError error
  | StSuccess
  | StInfo

record ('f, 't, 'n, 'w) env =
  py_float :: "string \<Rightarrow> 'f option"
  get_coordinates :: "string \<Rightarrow> string \<Rightarrow> 'w \<Rightarrow> (error + 'f \<times> 'f) \<times> 'w"
  load_theme :: "string \<Rightarrow> 'w \<Rightarrow> (error + 't) \<times> 'w"
  named_temporary_file :: "string \<Rightarrow> 'w \<Rightarrow> (error + string) \<times> 'w"
  load_fonts :: "string \<Rightarrow> 'w \<Rightarrow> (error + 'n) \<times> 'w"
  create_poster :: "('f, 't, 'n) poster_args \<Rightarrow> 'w \<Rightarrow> (error + unit) \<times> 'w"
  cache_dir_exists :: "'w \<Rightarrow> bool"
  rmtree :: "'w \<Rightarrow> 'w"
  mkdir :: "'w \<Rightarrow> 'w"

text \<open>
  The state that outlives a run of the script: the two memo tables of
  \<^verbatim>\<open>@st.cache_data\<close>, keyed by the arguments as they are passed, and the world.
\<close>

record ('f, 't, 'w) app =
  coord_memo :: "string \<times> string \<rightharpoonup> 'f \<times> 'f"
  theme_memo :: "string \<rightharpoonup> 't"
  world :: 'w

subsection \<open>The memoised wrappers\<close>

text \<open>
  \<^verbatim>\<open>@st.cache_data def get_cached_coordinates(city, country): return get_coordinates(city, country)\<close>
  A stored value is returned without running the body; a body that raises stores nothing.
\<close>

definition get_cached_coordinates ::
  "('f, 't, 'n, 'w) env \<Rightarrow> string \<Rightarrow> string \<Rightarrow> ('f, 't, 'w) app
    \<Rightarrow> ((error + 'f \<times> 'f) \<times> ('f, 't, 'n) event list) \<times> ('f, 't, 'w) app" where
  "get_cached_coordinates E c k s =
     (case coord_memo s (c, k) of
        Some p \<Rightarrow> ((Inr p, [GetCachedCoordinates c k]), s)
      | None \<Rightarrow>
          (case get_coordinates E c k (world s) of
             (Inl e, w) \<Rightarrow>
               ((Inl e, [GetCachedCoordinates c k, GetCoordinates c k]), s\<lparr>world := w\<rparr>)
           | (Inr p, w) \<Rightarrow>
               ((Inr p, [GetCachedCoordinates c k, GetCoordinates c k]),
                s\<lparr>coord_memo := (coord_memo s)((c, k) \<mapsto> p), world := w\<rparr>)))"

definition get_cached_theme ::
  "('f, 't, 'n, 'w) env \<Rightarrow> string \<Rightarrow> ('f, 't, 'w) app
    \<Rightarrow> ((error + 't) \<times> ('f, 't, 'n) event list) \<times> ('f, 't, 'w) app" where
  "get_cached_theme E name s =
     (case theme_memo s name of
        Some t \<Rightarrow> ((Inr t, [GetCachedTheme name]), s)
      | None \<Rightarrow>
          (case load_theme E name (world s) of
             (Inl e, w) \<Rightarrow> ((Inl e, [GetCachedTheme name, LoadTheme name]), s\<lparr>world := w\<rparr>)
           | (Inr t, w) \<Rightarrow>
               ((Inr t, [GetCachedTheme name, LoadTheme name]),
                s\<lparr>theme_memo := (theme_memo s)(name \<mapsto> t), world := w\<rparr>)))"

subsection \<open>generate\<close>

text \<open>
  Step 1 of \<^verbatim>\<open>generate\<close>: \<^verbatim>\<open>if override_lat and override_lon\<close> tests that both strings
  are non-empty; \<^verbatim>\<open>float\<close> raises ValueError on a string it cannot parse, the latitude
  first.
\<close>

definition handle_coordinates ::
  "('f, 't, 'n, 'w) env \<Rightarrow> 'f inputs \<Rightarrow> ('f, 't, 'w) app
    \<Rightarrow> ((error + 'f \<times> 'f) \<times> ('f, 't, 'n) event list) \<times> ('f, 't, 'w) app" where
  "handle_coordinates E inp s =
     (if override_lat inp \<noteq> [] \<and> override_lon inp \<noteq> [] then
        (case py_float E (override_lat inp) of
           None \<Rightarrow> ((Inl (ValueError (override_lat inp)), []), s)
         | Some la \<Rightarrow>
             (case py_float E (override_lon inp) of
                None \<Rightarrow> ((Inl (ValueError (override_lon inp)), []), s)
              | Some lo \<Rightarrow> ((Inr (la, lo), []), s)))
      else get_cached_coordinates E (city inp) (country inp) s)"

text \<open>The keyword arguments built at step 4.\<close>

definition poster_call ::
  "'f inputs \<Rightarrow> 'f \<times> 'f \<Rightarrow> 't \<Rightarrow> string \<Rightarrow> 'n option \<Rightarrow> ('f, 't, 'n) poster_args" where
  "poster_call inp point theme output_path custom_fonts =
     \<lparr>kw_city = city inp,
      kw_country = country inp,
      kw_point = point,
      kw_dist = dist inp,
      kw_output_file = output_path,
      kw_output_format = output_format inp,
      kw_theme = theme,
      kw_width = width inp,
      kw_height = height inp,
      kw_display_city = (if display_city inp \<noteq> [] then Some (display_city inp) else None),
      kw_display_country =
        (if display_country inp \<noteq> [] then Some (display_country inp) else None),
      kw_fonts = custom_fonts,
      kw_dpi = (if live_mode inp then 72 else 300)\<rparr>"

text \<open>
  \<^verbatim>\<open>custom_fonts = load_fonts(font_family) if font_family else None\<close>
\<close>

definition custom_fonts ::
  "('f, 't, 'n, 'w) env \<Rightarrow> 'f inputs \<Rightarrow> 'w
    \<Rightarrow> ((error + 'n option) \<times> ('f, 't, 'n) event list) \<times> 'w" where
  "custom_fonts E inp w =
     (if font_family inp \<noteq> [] then
        (case load_fonts E (font_family inp) w of
           (Inl e, w') \<Rightarrow> ((Inl e, [LoadFonts (font_family inp)]), w')
         | (Inr r, w') \<Rightarrow> ((Inr (Some r), [LoadFonts (font_family inp)]), w'))
      else ((Inr None, []), w))"

text \<open>
  Steps 2 to 4, with the point in hand. The result is the body's value before the
  handler: the output path, or the exception raised.
\<close>

definition render_point ::
  "('f, 't, 'n, 'w) env \<Rightarrow> 'f inputs \<Rightarrow> 'f \<times> 'f \<Rightarrow> ('f, 't, 'w) app
    \<Rightarrow> ((error + string) \<times> ('f, 't, 'n) event list) \<times> ('f, 't, 'w) app" where
  "render_point E inp point s =
     (case get_cached_theme E (selected_theme inp) s of
        ((Inl e, ev1), s1) \<Rightarrow> ((Inl e, ev1), s1)
      | ((Inr theme, ev1), s1) \<Rightarrow>
          (let suffix = ''.'' @ fmt_name (output_format inp) in
           case named_temporary_file E suffix (world s1) of
             (Inl e, w2) \<Rightarrow> ((Inl e, ev1 @ [NamedTemporaryFile suffix]), s1\<lparr>world := w2\<rparr>)
           | (Inr output_path, w2) \<Rightarrow>
               (case custom_fonts E inp w2 of
                  ((Inl e, ev3), w3) \<Rightarrow>
                    ((Inl e, ev1 @ [NamedTemporaryFile suffix] @ ev3), s1\<lparr>world := w3\<rparr>)
                | ((Inr fonts, ev3), w3) \<Rightarrow>
                    (let args = poster_call inp point theme output_path fonts;
                         evs = ev1 @ [NamedTemporaryFile suffix] @ ev3 @ [CreatePoster args]
                     in case create_poster E args w3 of
                          (Inl e, w4) \<Rightarrow> ((Inl e, evs), s1\<lparr>world := w4\<rparr>)
                        | (Inr u, w4) \<Rightarrow> ((Inr output_path, evs), s1\<lparr>world := w4\<rparr>)))))"

text \<open>The body of the \<^verbatim>\<open>try\<close>.\<close>

definition generate_body ::
  "('f, 't, 'n, 'w) env \<Rightarrow> 'f inputs \<Rightarrow> ('f, 't, 'w) app
    \<Rightarrow> ((error + string) \<times> ('f, 't, 'n) event list) \<times> ('f, 't, 'w) app" where
  "generate_body E inp s =
     (case handle_coordinates E inp s of
        ((Inl e, ev0), s0) \<Rightarrow> ((Inl e, ev0), s0)
      | ((Inr point, ev0), s0) \<Rightarrow>
          (case render_point E inp point s0 of
             ((r, ev1), s1) \<Rightarrow> ((r, ev0 @ ev1), s1)))"

text \<open>
  \<^verbatim>\<open>generate\<close>: any exception is reported with \<^verbatim>\<open>st.error\<close> and \<^verbatim>\<open>None\<close> is returned;
  otherwise the output path is returned.
\<close>

definition generate ::
  "('f, 't, 'n, 'w) env \<Rightarrow> 'f inputs \<Rightarrow> ('f, 't, 'w) app
    \<Rightarrow> (string option \<times> ('f, 't, 'n) event list) \<times> ('f, 't, 'w) app" where
  "generate E inp s =
     (case generate_body E inp s of
        ((Inl e, evs), s') \<Rightarrow> ((None, evs @ [StError e]), s')
      | ((Inr output_path, evs), s') \<Rightarrow> ((Some output_path, evs), s'))"

subsection \<open>main\<close>

text \<open>
  One run of the script. A click makes one button true for that run. The "Clear Cache"
  branch removes and recreates the cache directory when it exists and reruns the script
  (both buttons false then); otherwise it only reports. The part after
  \<^verbatim>\<open>file_path = generate()\<close> (preview, download button, removal of the temporary file)
  is not modelled.
\<close>

datatype click = NoClick | ClearCache | RenderMap

definition main_area ::
  "('f, 't, 'n, 'w) env \<Rightarrow> 'f inputs \<Rightarrow> bool \<Rightarrow> ('f, 't, 'w) app
    \<Rightarrow> (string option \<times> ('f, 't, 'n) event list) \<times> ('f, 't, 'w) app" where
  "main_area E inp generate_btn s =
     (if generate_btn \<or> live_mode inp then generate E inp s else ((None, [StInfo]), s))"

definition clear_cache :: "('f, 't, 'n, 'w) env \<Rightarrow> ('f, 't, 'w) app \<Rightarrow> ('f, 't, 'w) app" where
  "clear_cache E s = s\<lparr>world := mkdir E (rmtree E (world s))\<rparr>"

definition main ::
  "('f, 't, 'n, 'w) env \<Rightarrow> 'f inputs \<Rightarrow> click \<Rightarrow> ('f, 't, 'w) app
    \<Rightarrow> (string option \<times> ('f, 't, 'n) event list) \<times> ('f, 't, 'w) app" where
  "main E inp btn s =
     (if btn = ClearCache then
        (if cache_dir_exists E (world s) then
           (case main_area E inp False (clear_cache E s) of
              ((r, evs), s') \<Rightarrow> ((r, [Rmtree, Mkdir, StSuccess] @ evs), s'))
         else
           (case main_area E inp False s of
              ((r, evs), s') \<Rightarrow> ((r, StInfo # evs), s')))
      else main_area E inp (btn = RenderMap) s)"

text \<open>Several runs in a row, one click each, with the widgets unchanged.\<close>

fun run_clicks ::
  "('f, 't, 'n, 'w) env \<Rightarrow> 'f inputs \<Rightarrow> click list \<Rightarrow> ('f, 't, 'w) app
    \<Rightarrow> ('f, 't, 'n) event list list \<times> ('f, 't, 'w) app" where
  "run_clicks E inp [] s = ([], s)"
| "run_clicks E inp (b # bs) s =
     (case main E inp b s of
        ((r, evs), s') \<Rightarrow>
          (case run_clicks E inp bs s' of (evss, s'') \<Rightarrow> (evs # evss, s'')))"

subsection \<open>Reading the instrumentation\<close>

fun is_geocoding_call :: "('f, 't, 'n) event \<Rightarrow> bool" where
  "is_geocoding_call (GetCachedCoordinates c k) = True"
| "is_geocoding_call (GetCoordinates c k) = True"
| "is_geocoding_call e = False"

fun poster_calls :: "('f, 't, 'n) event list \<Rightarrow> ('f, 't, 'n) poster_args list" where
  "poster_calls [] = []"
| "poster_calls (CreatePoster a # evs) = a # poster_calls evs"
| "poster_calls (e # evs) = poster_calls evs"

section \<open>The engine behind the dashboard, from its specification\<close>

text \<open>
  The package modules that resolve places, load fonts and draw the poster are not in the
  source tree. The parts of them that the properties below need are modelled from the
  specification: the Location Resolver with its persistent geocode cache (4.1), the Font
  Manager (4.3), the cache root (6) and the Poster Compositor as far as its failures, its
  labels and its font go (4.5, 7). The external geocoding and font-catalog services and
  the two text operations of the normalisation are parameters; every query sent to a
  service is recorded.
\<close>

subsection \<open>Cache root and external services\<close>

text \<open>
  Modelled from the spec: the cache directory \<^verbatim>\<open>CACHE_DIR\<close> of \<^verbatim>\<open>map2poster.core\<close>
  (missing), with the geocode and the font namespace; the street-network namespace, whose
  key rounds floats, is left out. \<open>None\<close> is a directory that does not exist.
\<close>

record ('f, 'h) cache_dir =
  geocode_ns :: "string \<times> string \<rightharpoonup> 'f \<times> 'f"
  font_ns :: "string \<rightharpoonup> 'h"

definition empty_dir :: "('f, 'h) cache_dir" where
  "empty_dir = \<lparr>geocode_ns = Map.empty, font_ns = Map.empty\<rparr>"

datatype fetch = GeocodeFetch string string | FontFetch string

record ('f, 'h) engine =
  cache_root :: "('f, 'h) cache_dir option"
  fetches :: "fetch list"

text \<open>
  What the engine is given: trimming and case folding of a name (whatever the text
  library does, for any script), the geocoding service and the font catalog.
\<close>

record ('f, 'h) capabilities =
  trim :: "string \<Rightarrow> string"
  case_fold :: "string \<Rightarrow> string"
  geocoder :: "string \<Rightarrow> string \<Rightarrow> ('f \<times> 'f) option"
  font_catalog :: "string \<Rightarrow> 'h option"

text \<open>The directory is created on first use.\<close>

definition root_dir :: "('f, 'h) engine \<Rightarrow> ('f, 'h) cache_dir" where
  "root_dir w = (case cache_root w of None \<Rightarrow> empty_dir | Some d \<Rightarrow> d)"

definition engine_exists :: "('f, 'h) engine \<Rightarrow> bool" where
  "engine_exists w = (cache_root w \<noteq> None)"

definition engine_rmtree :: "('f, 'h) engine \<Rightarrow> ('f, 'h) engine" where
  "engine_rmtree w = w\<lparr>cache_root := None\<rparr>"

definition engine_mkdir :: "('f, 'h) engine \<Rightarrow> ('f, 'h) engine" where
  "engine_mkdir w = w\<lparr>cache_root := Some (root_dir w)\<rparr>"

subsection \<open>Normalised names\<close>

text \<open>
  Modelled from the spec: the normalisation done inside \<^verbatim>\<open>get_coordinates\<close> (module
  \<^verbatim>\<open>map2poster.core\<close>, missing); "Normalizes city/country (trim, case-fold) before using
  as a cache key": a name is trimmed, then case-folded, and the key is the pair of the
  two normalised names.
\<close>

definition normalize_name :: "('f, 'h) capabilities \<Rightarrow> string \<Rightarrow> string" where
  "normalize_name C s = case_fold C (trim C s)"

definition geocode_key :: "('f, 'h) capabilities \<Rightarrow> string \<Rightarrow> string \<Rightarrow> string \<times> string" where
  "geocode_key C c k = (normalize_name C c, normalize_name C k)"

text \<open>
  Two names differ only in surrounding white space or letter case: trimming removes what
  surrounds them and case folding then makes them the same string.
\<close>

definition differ_only_in_space_or_case ::
  "('f, 'h) capabilities \<Rightarrow> string \<Rightarrow> string \<Rightarrow> bool" where
  "differ_only_in_space_or_case C a b = (case_fold C (trim C a) = case_fold C (trim C b))"

subsection \<open>Location Resolver\<close>

text \<open>
  Modelled from the spec: \<^verbatim>\<open>get_coordinates\<close> of \<^verbatim>\<open>map2poster.core\<close> (missing), section
  4.1: a hit returns the stored point with no network access; a miss queries the external
  geocoder, stores the point under the normalised key on success and fails with a
  ResolutionError carrying the original query otherwise.
\<close>

definition resolve ::
  "('f, 'h) capabilities \<Rightarrow> string \<Rightarrow> string \<Rightarrow> ('f, 'h) engine
    \<Rightarrow> (error + 'f \<times> 'f) \<times> ('f, 'h) engine" where
  "resolve C c k w =
     (case geocode_ns (root_dir w) (geocode_key C c k) of
        Some p \<Rightarrow> (Inr p, w)
      | None \<Rightarrow>
          (case geocoder C c k of
             None \<Rightarrow> (Inl (ResolutionError c k), w\<lparr>fetches := fetches w @ [GeocodeFetch c k]\<rparr>)
           | Some p \<Rightarrow>
               (Inr p,
                w\<lparr>cache_root :=
                    Some ((root_dir w)
                      \<lparr>geocode_ns := (geocode_ns (root_dir w))(geocode_key C c k \<mapsto> p)\<rparr>),
                  fetches := fetches w @ [GeocodeFetch c k]\<rparr>)))"

subsection \<open>Font Manager\<close>

text \<open>
  Modelled from the spec: the FontSet of section 3, "requested_family,
  resolved_path_or_handle, is_fallback". The font manager is called with the family
  alone (\<^verbatim>\<open>load_fonts(font_family)\<close>), before it can know the theme, so "the theme's
  default font" is a handle that the compositor resolves against the theme it is given.
\<close>

datatype 'h font_handle = ThemeDefault | Asset 'h

record 'h font_set =
  requested_family :: "string option"
  resolved :: "'h font_handle"
  is_fallback :: bool

text \<open>
  Modelled from the spec: \<^verbatim>\<open>load_fonts\<close> of \<^verbatim>\<open>map2poster.font_management\<close> (missing),
  section 4.3: no family gives the theme's default font; a cached family is returned; a
  miss fetches from the font catalog and stores the asset; a failed fetch gives the
  theme's default font marked as fallback, not an error.
\<close>

definition resolve_font ::
  "('f, 'h) capabilities \<Rightarrow> string \<Rightarrow> ('f, 'h) engine \<Rightarrow> 'h font_set \<times> ('f, 'h) engine" where
  "resolve_font C family w =
     (if family = [] then
        (\<lparr>requested_family = None, resolved = ThemeDefault, is_fallback = False\<rparr>, w)
      else
        (case font_ns (root_dir w) family of
           Some h \<Rightarrow>
             (\<lparr>requested_family = Some family, resolved = Asset h, is_fallback = False\<rparr>, w)
         | None \<Rightarrow>
             (case font_catalog C family of
                Some h \<Rightarrow>
                  (\<lparr>requested_family = Some family, resolved = Asset h, is_fallback = False\<rparr>,
                   w\<lparr>cache_root :=
                       Some ((root_dir w)\<lparr>font_ns := (font_ns (root_dir w))(family \<mapsto> h)\<rparr>),
                     fetches := fetches w @ [FontFetch family]\<rparr>)
              | None \<Rightarrow>
                  (\<lparr>requested_family = Some family, resolved = ThemeDefault,
                    is_fallback = True\<rparr>,
                   w\<lparr>fetches := fetches w @ [FontFetch family]\<rparr>))))"

text \<open>The font manager as the dashboard calls it: it never raises.\<close>

definition font_loader ::
  "('f, 'h) capabilities \<Rightarrow> string \<Rightarrow> ('f, 'h) engine
    \<Rightarrow> (error + 'h font_set) \<times> ('f, 'h) engine" where
  "font_loader C family w = (case resolve_font C family w of (fs, w') \<Rightarrow> (Inr fs, w'))"

subsection \<open>Labels\<close>

text \<open>
  Modelled from the spec: the labels drawn by \<^verbatim>\<open>create_poster\<close> of \<^verbatim>\<open>map2poster.core\<close>
  (missing), section 4.5 step 5: "city label = display_city if provided else original
  city; country label = display_country if provided else original country".
\<close>

definition city_label :: "('f, 't, 'n) poster_args \<Rightarrow> string" where
  "city_label a = (case kw_display_city a of Some d \<Rightarrow> d | None \<Rightarrow> kw_city a)"

definition country_label :: "('f, 't, 'n) poster_args \<Rightarrow> string" where
  "country_label a = (case kw_display_country a of Some d \<Rightarrow> d | None \<Rightarrow> kw_country a)"

subsection \<open>Poster Compositor\<close>

text \<open>
  What the compositor is given besides its arguments: the street-network provider
  (\<open>None\<close> when the fetch fails or the data is unusable), the default font of a theme
  (the attribute \<^verbatim>\<open>default_font\<close> of section 3) and whether the output file can be
  written.
\<close>

record ('f, 't, 'h, 'g) workshop =
  street_network :: "'f \<times> 'f \<Rightarrow> int \<Rightarrow> 'g option"
  theme_font :: "'t \<Rightarrow> 'h"
  writable :: "string \<Rightarrow> bool"

text \<open>The RenderedArtifact of section 3, without the pixel dimensions.\<close>

record artifact =
  art_path :: string
  art_format :: fmt

text \<open>
  Modelled from the spec: the font of the labels in \<^verbatim>\<open>create_poster\<close> (missing), sections
  4.3 and 4.5 step 5: the labels are "rendered with the resolved FontSet"; without a font
  set, or with one that stands for the theme's default, that is the default font of the
  theme passed to the call.
\<close>

definition label_font ::
  "('f, 't, 'h, 'g) workshop \<Rightarrow> ('f, 't, 'h font_set) poster_args \<Rightarrow> 'h" where
  "label_font K a =
     (case kw_fonts a of
        None \<Rightarrow> theme_font K (kw_theme a)
      | Some fs \<Rightarrow>
          (case resolved fs of
             ThemeDefault \<Rightarrow> theme_font K (kw_theme a)
           | Asset h \<Rightarrow> h))"

text \<open>
  Modelled from the spec: \<^verbatim>\<open>create_poster\<close> of \<^verbatim>\<open>map2poster.core\<close> (missing), sections 2,
  4.5 and 7: the street network is fetched around the point within the radius
  (NetworkDataError when that fails; a network without edges is still drawn), the scene is
  composed and exported to the output file in the requested format (RenderError when the
  file cannot be written). The fonts are no cause of failure: "Font resolution failures
  are not propagated as fatal errors".
\<close>

definition compose ::
  "('f, 't, 'h, 'g) workshop \<Rightarrow> ('f, 't, 'h font_set) poster_args \<Rightarrow> error + artifact" where
  "compose K a =
     (case street_network K (kw_point a) (kw_dist a) of
        None \<Rightarrow> Inl NetworkDataError
      | Some g \<Rightarrow>
          if writable K (kw_output_file a)
          then Inr \<lparr>art_path = kw_output_file a, art_format = kw_output_format a\<rparr>
          else Inl RenderError)"

text \<open>
  The compositor as the dashboard calls it; the network cache and the file written are
  not part of the modelled world.
\<close>

definition poster_routine ::
  "('f, 't, 'h, 'g) workshop \<Rightarrow> ('f, 't, 'h font_set) poster_args \<Rightarrow> 'w
    \<Rightarrow> (error + unit) \<times> 'w" where
  "poster_routine K a w = (case compose K a of Inl e \<Rightarrow> (Inl e, w) | Inr art \<Rightarrow> (Inr (), w))"

section \<open>A sample installation\<close>

text \<open>
  A concrete environment on which the general statements are instantiated. Floats are
  sampled by plain decimal literals (an optional minus sign, digits, and optionally a
  point followed by digits), a subset of what Python's \<^verbatim>\<open>float\<close> accepts; \<open>Decimal m k\<close>
  stands for \<open>m / 10 ^ k\<close>.
\<close>

datatype decimal = Decimal int nat

definition digit :: "char \<Rightarrow> nat option" where
  "digit c = map_of (zip ''0123456789'' [0, 1, 2, 3, 4, 5, 6, 7, 8, 9]) c"

fun digits_value :: "nat \<Rightarrow> string \<Rightarrow> nat option" where
  "digits_value acc [] = Some acc"
| "digits_value acc (c # cs) =
     (case digit c of None \<Rightarrow> None | Some d \<Rightarrow> digits_value (10 * acc + d) cs)"

definition unsigned_decimal :: "string \<Rightarrow> (nat \<times> nat) option" where
  "unsigned_decimal s =
     (let ip = takeWhile (\<lambda>c. c \<noteq> CHR ''.'') s;
          rest = dropWhile (\<lambda>c. c \<noteq> CHR ''.'') s
      in if ip = [] then None
         else (case rest of
                 [] \<Rightarrow> map_option (\<lambda>n. (n, 0)) (digits_value 0 ip)
               | dot # fp \<Rightarrow>
                   if fp = [] then None
                   else map_option (\<lambda>n. (n, length fp)) (digits_value 0 (ip @ fp))))"

definition sample_float :: "string \<Rightarrow> decimal option" where
  "sample_float s =
     (case s of
        [] \<Rightarrow> None
      | c # cs \<Rightarrow>
          if c = CHR ''-'' then map_option (\<lambda>(m, k). Decimal (- int m) k) (unsigned_decimal cs)
          else map_option (\<lambda>(m, k). Decimal (int m) k) (unsigned_decimal s))"

definition new_york :: "decimal \<times> decimal" where
  "new_york = (Decimal 407128 4, Decimal (- 740060) 4)"

text \<open>
  Trimming and case folding are sampled on ASCII: white space is the six ASCII white-space
  characters, and case folding maps the letters A to Z to a to z and leaves every other
  byte.
\<close>

definition is_space :: "char \<Rightarrow> bool" where
  "is_space c = (c \<in> set [CHR '' '', CHR 0x09, CHR 0x0A, CHR 0x0B, CHR 0x0C, CHR 0x0D])"

definition strip :: "string \<Rightarrow> string" where
  "strip s = rev (dropWhile is_space (rev (dropWhile is_space s)))"

definition casefold_char :: "char \<Rightarrow> char" where
  "casefold_char c =
     (case map_of (zip ''ABCDEFGHIJKLMNOPQRSTUVWXYZ'' ''abcdefghijklmnopqrstuvwxyz'') c of
        Some l \<Rightarrow> l
      | None \<Rightarrow> c)"

definition casefold :: "string \<Rightarrow> string" where
  "casefold s = map casefold_char s"

definition sample_caps :: "(decimal, string) capabilities" where
  "sample_caps =
     \<lparr>trim = strip,
      case_fold = casefold,
      geocoder = (\<lambda>c k. if (casefold (strip c), casefold (strip k)) = (''new york'', ''usa'')
                         then Some new_york else None),
      font_catalog = (\<lambda>family. if family = ''Roboto'' then Some ''Roboto.ttf'' else None)\<rparr>"

text \<open>
  A compositor whose street-network provider answers every query, whose files can all be
  written, and where the default font of a theme is named after the theme.
\<close>

definition sample_workshop :: "(decimal, string, string, nat) workshop" where
  "sample_workshop =
     \<lparr>street_network = (\<lambda>p d. Some 0),
      theme_font = (\<lambda>t. t @ ''#default''),
      writable = (\<lambda>path. True)\<rparr>"

text \<open>
  The dashboard's environment over the engine: the resolver and the font manager above,
  a theme table, a fixed temporary path, and a poster routine that succeeds.
\<close>

definition engine_env ::
  "('f, 'h) capabilities \<Rightarrow> (string \<Rightarrow> 'f option) \<Rightarrow> (string \<rightharpoonup> 't)
    \<Rightarrow> ('f, 't, 'h font_set, ('f, 'h) engine) env" where
  "engine_env C pf themes =
     \<lparr>py_float = pf,
      get_coordinates = resolve C,
      load_theme = (\<lambda>name w. case themes name of
                                None \<Rightarrow> (Inl (ThemeNotFoundError name), w)
                              | Some t \<Rightarrow> (Inr t, w)),
      named_temporary_file = (\<lambda>suffix w. (Inr (''/tmp/tmpposter'' @ suffix), w)),
      load_fonts = font_loader C,
      create_poster = (\<lambda>a w. (Inr (), w)),
      cache_dir_exists = engine_exists,
      rmtree = engine_rmtree,
      mkdir = engine_mkdir\<rparr>"

definition sample_env :: "(decimal, string, string font_set, (decimal, string) engine) env" where
  "sample_env = engine_env sample_caps sample_float [''terracotta'' \<mapsto> ''terracotta.json'']"

text \<open>The same installation with the compositor above as its poster routine.\<close>

definition studio_env :: "(decimal, string, string font_set, (decimal, string) engine) env" where
  "studio_env = sample_env\<lparr>create_poster := poster_routine sample_workshop\<rparr>"

text \<open>The widgets at their initial values, and a dashboard that has not run yet.\<close>

definition default_inputs :: "decimal inputs" where
  "default_inputs =
     \<lparr>city = ''New York'', country = ''USA'', override_lat = [], override_lon = [],
      selected_theme = ''terracotta'', dist = 12000, width = Decimal 120 1,
      height = Decimal 160 1, display_city = [], display_country = [], font_family = [],
      live_mode = False, output_format = Png\<rparr>"

definition fresh :: "(decimal, string, (decimal, string) engine) app" where
  "fresh = \<lparr>coord_memo = Map.empty, theme_memo = Map.empty,
            world = \<lparr>cache_root = None, fetches = []\<rparr>\<rparr>"

text \<open>Variations of the widgets used in the examples.\<close>

definition override_inputs :: "decimal inputs" where
  "override_inputs =
     default_inputs\<lparr>city := ''Atlantis'', country := ''Nowhere'',
       override_lat := ''40.7128'', override_lon := ''-74.0060''\<rparr>"

definition half_inputs :: "decimal inputs" where
  "half_inputs = default_inputs\<lparr>override_lat := ''40.7128''\<rparr>"

definition bad_inputs :: "decimal inputs" where
  "bad_inputs = default_inputs\<lparr>override_lat := ''abc'', override_lon := ''-74.0060''\<rparr>"

definition renamed_inputs :: "decimal inputs" where
  "renamed_inputs = default_inputs\<lparr>display_city := ''The Big Apple''\<rparr>"

definition font_inputs :: "decimal inputs" where
  "font_inputs = default_inputs\<lparr>font_family := ''No Such Font'', output_format := Svg\<rparr>"

text \<open>The dashboard after one render of the initial widgets.\<close>

definition rendered_once :: "(decimal, string, (decimal, string) engine) app" where
  "rendered_once =
     \<lparr>coord_memo = [(''New York'', ''USA'') \<mapsto> new_york],
      theme_memo = [''terracotta'' \<mapsto> ''terracotta.json''],
      world = \<lparr>cache_root = Some \<lparr>geocode_ns = [(''new york'', ''usa'') \<mapsto> new_york],
                                     font_ns = Map.empty\<rparr>,
                fetches = [GeocodeFetch ''New York'' ''USA'']\<rparr>\<rparr>"

section \<open>Properties\<close>

subsection \<open>Unfolding and sample runs\<close>

lemmas sample_float_defs = sample_float_def unsigned_decimal_def digit_def
lemmas name_defs = geocode_key_def normalize_name_def strip_def is_space_def casefold_def
  casefold_char_def
lemmas engine_defs = engine_env_def resolve_def resolve_font_def font_loader_def root_dir_def
  empty_dir_def engine_exists_def engine_rmtree_def engine_mkdir_def
lemmas dashboard_defs = main_def main_area_def clear_cache_def generate_def generate_body_def
  render_point_def custom_fonts_def poster_call_def handle_coordinates_def
  get_cached_theme_def get_cached_coordinates_def
lemmas sample_defs = sample_env_def sample_caps_def default_inputs_def fresh_def

lemma float_lat: "sample_float ''40.7128'' = Some (Decimal 407128 4)"
  by (simp add: sample_float_defs)

lemma float_lon: "sample_float ''-74.0060'' = Some (Decimal (- 740060) 4)"
  by (simp add: sample_float_defs)

lemma float_abc: "sample_float ''abc'' = None"
  by (simp add: sample_float_defs)

lemma fold_New_York: "casefold (strip ''New York'') = ''new york''"
  by (simp add: strip_def is_space_def casefold_def casefold_char_def)

lemma fold_USA: "casefold (strip ''USA'') = ''usa''"
  by (simp add: strip_def is_space_def casefold_def casefold_char_def)

lemmas sample_names = geocode_key_def normalize_name_def fold_New_York fold_USA

lemma resolve_first:
  "get_cached_coordinates sample_env ''New York'' ''USA'' fresh =
     ((Inr new_york,
       [GetCachedCoordinates ''New York'' ''USA'', GetCoordinates ''New York'' ''USA'']),
      fresh\<lparr>coord_memo := [(''New York'', ''USA'') \<mapsto> new_york],
        world := \<lparr>cache_root =
                    Some (empty_dir\<lparr>geocode_ns := [(''new york'', ''usa'') \<mapsto> new_york]\<rparr>),
                  fetches = [GeocodeFetch ''New York'' ''USA'']\<rparr>\<rparr>)"
  by (simp add: get_cached_coordinates_def sample_defs engine_defs sample_names)

lemma first_run:
  "main sample_env default_inputs RenderMap fresh =
     ((Some ''/tmp/tmpposter.png'',
       [GetCachedCoordinates ''New York'' ''USA'', GetCoordinates ''New York'' ''USA'',
        GetCachedTheme ''terracotta'', LoadTheme ''terracotta'', NamedTemporaryFile ''.png'',
        CreatePoster (poster_call default_inputs new_york ''terracotta.json''
           ''/tmp/tmpposter.png'' None)]),
      rendered_once)"
  by (simp add: dashboard_defs sample_defs engine_defs rendered_once_def sample_names Let_def)

lemma second_run:
  "main sample_env default_inputs ClearCache rendered_once =
     ((None, [Rmtree, Mkdir, StSuccess, StInfo]),
      rendered_once\<lparr>world := \<lparr>cache_root = Some empty_dir,
                                fetches = [GeocodeFetch ''New York'' ''USA'']\<rparr>\<rparr>)"
  by (simp add: main_def main_area_def clear_cache_def sample_env_def default_inputs_def
        rendered_once_def engine_env_def engine_exists_def engine_rmtree_def engine_mkdir_def
        root_dir_def)

lemma third_run:
  "main sample_env default_inputs RenderMap
     (rendered_once\<lparr>world := \<lparr>cache_root = Some empty_dir,
                               fetches = [GeocodeFetch ''New York'' ''USA'']\<rparr>\<rparr>) =
     ((Some ''/tmp/tmpposter.png'',
       [GetCachedCoordinates ''New York'' ''USA'', GetCachedTheme ''terracotta'',
        NamedTemporaryFile ''.png'',
        CreatePoster (poster_call default_inputs new_york ''terracotta.json''
           ''/tmp/tmpposter.png'' None)]),
      rendered_once\<lparr>world := \<lparr>cache_root = Some empty_dir,
                                fetches = [GeocodeFetch ''New York'' ''USA'']\<rparr>\<rparr>)"
  by (simp add: dashboard_defs sample_env_def default_inputs_def rendered_once_def
        engine_env_def Let_def)

lemma live_run:
  "poster_calls (snd (fst
       (main sample_env (default_inputs\<lparr>live_mode := True\<rparr>) NoClick fresh))) =
     [poster_call (default_inputs\<lparr>live_mode := True\<rparr>) new_york ''terracotta.json''
        ''/tmp/tmpposter.png'' None]"
  by (simp add: dashboard_defs sample_defs engine_defs sample_names Let_def)

lemma override_run:
  "generate sample_env override_inputs fresh =
     ((Some ''/tmp/tmpposter.png'',
       [GetCachedTheme ''terracotta'', LoadTheme ''terracotta'', NamedTemporaryFile ''.png'',
        CreatePoster (poster_call override_inputs new_york ''terracotta.json''
           ''/tmp/tmpposter.png'' None)]),
      fresh\<lparr>theme_memo := [''terracotta'' \<mapsto> ''terracotta.json'']\<rparr>)"
  by (simp add: override_inputs_def dashboard_defs sample_defs engine_defs float_lat float_lon
        new_york_def Let_def)

lemma renamed_run:
  "poster_calls (snd (fst (generate sample_env renamed_inputs fresh))) =
     [poster_call renamed_inputs new_york ''terracotta.json'' ''/tmp/tmpposter.png'' None]"
  by (simp add: renamed_inputs_def dashboard_defs sample_defs engine_defs sample_names Let_def)

subsection \<open>The events of one run\<close>

lemma set_poster_calls: "a \<in> set (poster_calls evs) \<longleftrightarrow> CreatePoster a \<in> set evs"
  by (induction evs rule: poster_calls.induct) auto

lemma poster_calls_append: "poster_calls (xs @ ys) = poster_calls xs @ poster_calls ys"
  by (induction xs rule: poster_calls.induct) simp_all

lemma get_cached_coordinates_events:
  "e \<in> set (snd (fst (get_cached_coordinates E c k s)))
   \<Longrightarrow> e = GetCachedCoordinates c k \<or> e = GetCoordinates c k"
  by (auto simp: get_cached_coordinates_def split: option.splits sum.splits prod.splits)

lemma handle_coordinates_override:
  "override_lat inp \<noteq> [] \<Longrightarrow> override_lon inp \<noteq> []
   \<Longrightarrow> handle_coordinates E inp s =
       ((case py_float E (override_lat inp) of
           None \<Rightarrow> Inl (ValueError (override_lat inp))
         | Some la \<Rightarrow>
             (case py_float E (override_lon inp) of
                None \<Rightarrow> Inl (ValueError (override_lon inp))
              | Some lo \<Rightarrow> Inr (la, lo)), []), s)"
  by (simp add: handle_coordinates_def split: option.splits)

lemma render_point_events:
  "e \<in> set (snd (fst (render_point E inp point s)))
   \<Longrightarrow> e = GetCachedTheme (selected_theme inp) \<or> e = LoadTheme (selected_theme inp)
     \<or> e = NamedTemporaryFile (''.'' @ fmt_name (output_format inp))
     \<or> e = LoadFonts (font_family inp)
     \<or> (\<exists>theme path fonts. e = CreatePoster (poster_call inp point theme path fonts))"
  by (auto simp: render_point_def custom_fonts_def get_cached_theme_def Let_def
        split: prod.splits sum.splits option.splits if_splits)

lemma generate_events:
  "e \<in> set (snd (fst (generate E inp s)))
   \<Longrightarrow> e \<in> set (snd (fst (handle_coordinates E inp s)))
     \<or> (\<exists>point ev0 s0. handle_coordinates E inp s = ((Inr point, ev0), s0)
           \<and> e \<in> set (snd (fst (render_point E inp point s0))))
     \<or> (\<exists>err. e = StError err)"
  by (auto simp: generate_def generate_body_def split: prod.splits sum.splits)

lemma main_events:
  "e \<in> set (snd (fst (main E inp btn s)))
   \<Longrightarrow> e \<in> {Rmtree, Mkdir, StSuccess, StInfo}
     \<or> e \<in> set (snd (fst (generate E inp s)))
     \<or> e \<in> set (snd (fst (generate E inp (clear_cache E s))))"
  by (auto simp: main_def main_area_def split: prod.splits if_splits)

text \<open>
  Every call of the poster routine in a run of \<open>generate\<close> is built from the widgets and
  from the point that step 1 returned.
\<close>

lemma generate_poster_call:
  assumes "CreatePoster a \<in> set (snd (fst (generate E inp s)))"
  shows "\<exists>point ev0 s0 theme path fonts.
           handle_coordinates E inp s = ((Inr point, ev0), s0)
           \<and> a = poster_call inp point theme path fonts"
proof -
  from generate_events [OF assms]
  consider "CreatePoster a \<in> set (snd (fst (handle_coordinates E inp s)))"
    | point ev0 s0 where "handle_coordinates E inp s = ((Inr point, ev0), s0)"
        "CreatePoster a \<in> set (snd (fst (render_point E inp point s0)))"
    by auto
  then show ?thesis
  proof cases
    case 1
    then show ?thesis
      by (auto simp: handle_coordinates_def split: if_splits option.splits
            dest: get_cached_coordinates_events)
  next
    case 2
    from render_point_events [OF 2(2)] 2(1) show ?thesis by auto
  qed
qed

text \<open>The size and the radius reach the poster routine as the widgets give them.\<close>

lemma generate_forwards_size:
  assumes "a \<in> set (poster_calls (snd (fst (generate E inp s))))"
  shows "kw_width a = width inp \<and> kw_height a = height inp \<and> kw_dist a = dist inp
    \<and> kw_output_format a = output_format inp"
proof -
  from assms have "CreatePoster a \<in> set (snd (fst (generate E inp s)))"
    by (simp add: set_poster_calls)
  from generate_poster_call [OF this] show ?thesis
    by (auto simp: poster_call_def)
qed

subsection \<open>Coordinate override\<close>

text \<open>
  C1. When both override fields are non-empty, a run of \<open>generate\<close> enters neither
  \<open>get_cached_coordinates\<close> nor \<open>get_coordinates\<close>, whatever the city and the country
  are, and every call of the poster routine receives the point made of the two parsed
  fields.
\<close>

theorem override_bypasses_geocoding:
  assumes "override_lat inp \<noteq> []" and "override_lon inp \<noteq> []"
  shows "filter is_geocoding_call (snd (fst (generate E inp s))) = []
    \<and> (\<forall>a \<in> set (poster_calls (snd (fst (generate E inp s)))).
          py_float E (override_lat inp) = Some (fst (kw_point a))
          \<and> py_float E (override_lon inp) = Some (snd (kw_point a)))"
proof
  have "\<not> is_geocoding_call e" if "e \<in> set (snd (fst (generate E inp s)))" for e
    using generate_events [OF that] handle_coordinates_override [OF assms, of E s]
    by (auto dest: render_point_events)
  then show "filter is_geocoding_call (snd (fst (generate E inp s))) = []"
    by (simp add: filter_empty_conv)
next
  show "\<forall>a \<in> set (poster_calls (snd (fst (generate E inp s)))).
          py_float E (override_lat inp) = Some (fst (kw_point a))
          \<and> py_float E (override_lon inp) = Some (snd (kw_point a))"
  proof
    fix a assume "a \<in> set (poster_calls (snd (fst (generate E inp s))))"
    then have "CreatePoster a \<in> set (snd (fst (generate E inp s)))"
      by (simp add: set_poster_calls)
    from generate_poster_call [OF this] handle_coordinates_override [OF assms, of E s]
    show "py_float E (override_lat inp) = Some (fst (kw_point a))
          \<and> py_float E (override_lon inp) = Some (snd (kw_point a))"
      by (auto simp: poster_call_def split: option.splits)
  qed
qed

theorem override_bypasses_geocoding_witness:
  "override_lat override_inputs \<noteq> [] \<and> override_lon override_inputs \<noteq> []
   \<and> filter is_geocoding_call (snd (fst (generate sample_env override_inputs fresh))) = []
   \<and> map kw_point (poster_calls (snd (fst (generate sample_env override_inputs fresh)))) =
       [(Decimal 407128 4, Decimal (- 740060) 4)]"
proof -
  have lat: "override_lat override_inputs \<noteq> []" and lon: "override_lon override_inputs \<noteq> []"
    by (simp_all add: override_inputs_def default_inputs_def)
  have calls: "poster_calls (snd (fst (generate sample_env override_inputs fresh))) =
      [poster_call override_inputs new_york ''terracotta.json'' ''/tmp/tmpposter.png'' None]"
    by (simp add: override_run)
  have floats: "py_float sample_env (override_lat override_inputs) = Some (Decimal 407128 4)"
    "py_float sample_env (override_lon override_inputs) = Some (Decimal (- 740060) 4)"
    by (simp_all add: sample_env_def engine_env_def override_inputs_def default_inputs_def
          float_lat float_lon)
  from override_bypasses_geocoding [OF lat lon, of sample_env fresh] calls floats lat lon
  show ?thesis by (simp add: prod_eq_iff)
qed

text \<open>
  C8. When exactly one override field is non-empty, step 1 is the geocoding of city and
  country, and the whole run (result, events and final state) is the run with both
  fields empty: the field that was filled in has no effect and raises nothing.
\<close>

theorem partial_override_ignored:
  assumes "(override_lat inp = []) \<noteq> (override_lon inp = [])"
  shows "generate E inp s = generate E (inp\<lparr>override_lat := [], override_lon := []\<rparr>) s
    \<and> handle_coordinates E inp s = get_cached_coordinates E (city inp) (country inp) s"
proof -
  let ?inp = "inp\<lparr>override_lat := [], override_lon := []\<rparr>"
  have pc: "poster_call ?inp = poster_call inp"
    by (intro ext) (simp add: poster_call_def cong: if_cong)
  have cf: "custom_fonts E ?inp = custom_fonts E inp"
    by (intro ext) (simp add: custom_fonts_def cong: if_cong prod.case_cong sum.case_cong)
  have "render_point E ?inp point s0 = render_point E inp point s0" for point s0
    by (simp add: render_point_def pc cf Let_def cong: prod.case_cong sum.case_cong)
  moreover have "handle_coordinates E ?inp s = handle_coordinates E inp s"
    using assms by (auto simp: handle_coordinates_def)
  ultimately have "generate_body E ?inp s = generate_body E inp s"
    by (simp add: generate_body_def cong: prod.case_cong sum.case_cong)
  then show ?thesis
    using assms by (auto simp: generate_def handle_coordinates_def)
qed

theorem partial_override_ignored_witness:
  "(override_lat half_inputs = []) \<noteq> (override_lon half_inputs = [])
   \<and> generate sample_env half_inputs fresh = generate sample_env default_inputs fresh
   \<and> handle_coordinates sample_env half_inputs fresh =
       get_cached_coordinates sample_env ''New York'' ''USA'' fresh"
proof -
  have one: "(override_lat half_inputs = []) \<noteq> (override_lon half_inputs = [])"
    by (simp add: half_inputs_def default_inputs_def)
  have same: "half_inputs\<lparr>override_lat := [], override_lon := []\<rparr> = default_inputs"
    by (simp add: half_inputs_def default_inputs_def)
  have place: "city half_inputs = ''New York''" "country half_inputs = ''USA''"
    by (simp_all add: half_inputs_def default_inputs_def)
  from partial_override_ignored [OF one, of sample_env fresh] one same place
  show ?thesis by simp
qed

text \<open>
  C9. When both override fields are non-empty and one of them does not parse as a float,
  \<open>generate\<close> returns no file path: the ValueError of the first field that fails is
  reported, nothing else happens (no theme is loaded, no temporary file is made, the
  poster routine is not called) and the state is unchanged.
\<close>

theorem unparseable_override_aborts:
  assumes "override_lat inp \<noteq> []" and "override_lon inp \<noteq> []"
    and "py_float E (override_lat inp) = None \<or> py_float E (override_lon inp) = None"
  shows "generate E inp s =
           ((None, [StError (ValueError (if py_float E (override_lat inp) = None
                                        then override_lat inp else override_lon inp))]), s)"
  using assms
  by (auto simp: generate_def generate_body_def handle_coordinates_def split: option.splits)

theorem unparseable_override_aborts_witness:
  "override_lat bad_inputs \<noteq> [] \<and> override_lon bad_inputs \<noteq> []
   \<and> py_float sample_env (override_lat bad_inputs) = None
   \<and> generate sample_env bad_inputs fresh = ((None, [StError (ValueError ''abc'')]), fresh)"
proof -
  have lat: "override_lat bad_inputs \<noteq> []" and lon: "override_lon bad_inputs \<noteq> []"
    by (simp_all add: bad_inputs_def default_inputs_def)
  have bad: "py_float sample_env (override_lat bad_inputs) = None"
    by (simp add: sample_env_def engine_env_def bad_inputs_def default_inputs_def float_abc)
  then have "py_float sample_env (override_lat bad_inputs) = None
      \<or> py_float sample_env (override_lon bad_inputs) = None" ..
  from unparseable_override_aborts [OF lat lon this, of fresh] lat lon bad
  show ?thesis by (simp add: bad_inputs_def default_inputs_def)
qed

subsection \<open>Resolution and typography passed to the poster routine\<close>

text \<open>
  C10. In every run of the script, whatever was clicked, each call of the poster routine
  has dpi 72 when live mode is on and dpi 300 when it is off.
\<close>

theorem dashboard_dpi:
  "\<forall>a \<in> set (poster_calls (snd (fst (main E inp btn s)))).
     kw_dpi a = (if live_mode inp then 72 else 300)"
proof
  fix a assume "a \<in> set (poster_calls (snd (fst (main E inp btn s))))"
  then have "CreatePoster a \<in> set (snd (fst (main E inp btn s)))"
    by (simp add: set_poster_calls)
  from main_events [OF this] show "kw_dpi a = (if live_mode inp then 72 else 300)"
    by (auto dest!: generate_poster_call simp: poster_call_def)
qed

theorem dashboard_dpi_witness:
  "map kw_dpi (poster_calls (snd (fst (main sample_env default_inputs RenderMap fresh)))) = [300]
   \<and> map kw_dpi (poster_calls (snd (fst
         (main sample_env (default_inputs\<lparr>live_mode := True\<rparr>) NoClick fresh)))) = [72]"
proof -
  have slow: "poster_calls (snd (fst (main sample_env default_inputs RenderMap fresh))) =
      [poster_call default_inputs new_york ''terracotta.json'' ''/tmp/tmpposter.png'' None]"
    by (simp add: first_run)
  have modes: "\<not> live_mode default_inputs" "live_mode (default_inputs\<lparr>live_mode := True\<rparr>)"
    by (simp_all add: default_inputs_def)
  from dashboard_dpi [of sample_env default_inputs RenderMap fresh]
    dashboard_dpi [of sample_env "default_inputs\<lparr>live_mode := True\<rparr>" NoClick fresh]
    slow live_run modes
  show ?thesis by simp
qed

text \<open>
  C7. For every call of the poster routine made by \<open>generate\<close>, the city label is the
  display name of the city when that widget is non-empty and the city otherwise, and the
  country label is the display name of the country when that widget is non-empty and the
  country otherwise. (The dashboard turns an empty display name into \<^verbatim>\<open>None\<close>; the
  choice of the label is the poster routine's, taken from the specification.)
\<close>

theorem labels_from_display_names:
  "\<forall>a \<in> set (poster_calls (snd (fst (generate E inp s)))).
     city_label a = (if display_city inp \<noteq> [] then display_city inp else city inp)
     \<and> country_label a =
         (if display_country inp \<noteq> [] then display_country inp else country inp)"
proof
  fix a assume "a \<in> set (poster_calls (snd (fst (generate E inp s))))"
  then have "CreatePoster a \<in> set (snd (fst (generate E inp s)))"
    by (simp add: set_poster_calls)
  from generate_poster_call [OF this]
  show "city_label a = (if display_city inp \<noteq> [] then display_city inp else city inp)
     \<and> country_label a =
         (if display_country inp \<noteq> [] then display_country inp else country inp)"
    by (auto simp: poster_call_def city_label_def country_label_def)
qed

theorem labels_from_display_names_witness:
  "map city_label (poster_calls (snd (fst (generate sample_env renamed_inputs fresh)))) =
     [''The Big Apple'']
   \<and> map country_label (poster_calls (snd (fst (generate sample_env renamed_inputs fresh)))) =
     [''USA'']"
proof -
  have names: "display_city renamed_inputs = ''The Big Apple''"
    "display_country renamed_inputs = []" "country renamed_inputs = ''USA''"
    by (simp_all add: renamed_inputs_def default_inputs_def)
  from labels_from_display_names [of sample_env renamed_inputs fresh] renamed_run names
  show ?thesis by simp
qed

subsection \<open>Resolving a place\<close>

text \<open>
  C4. Resolving the same (city, country) twice: when the first call returns a point, the
  second returns the same point from the memo table, its only event is the entry into the
  wrapper (the resolver behind it is not called, so nothing is asked of a geocoder), and
  the state, the world included, is unchanged.
\<close>

theorem get_cached_coordinates_idempotent:
  assumes "get_cached_coordinates E c k s = ((Inr p, evs), s')"
  shows "get_cached_coordinates E c k s' = ((Inr p, [GetCachedCoordinates c k]), s')"
  using assms
  by (auto simp: get_cached_coordinates_def split: option.splits sum.splits prod.splits)

theorem get_cached_coordinates_idempotent_witness:
  "get_cached_coordinates sample_env ''New York'' ''USA'' fresh =
     ((Inr new_york,
       [GetCachedCoordinates ''New York'' ''USA'', GetCoordinates ''New York'' ''USA'']),
      snd (get_cached_coordinates sample_env ''New York'' ''USA'' fresh))
   \<and> get_cached_coordinates sample_env ''New York'' ''USA''
       (snd (get_cached_coordinates sample_env ''New York'' ''USA'' fresh)) =
     ((Inr new_york, [GetCachedCoordinates ''New York'' ''USA'']),
      snd (get_cached_coordinates sample_env ''New York'' ''USA'' fresh))"
proof -
  have first: "get_cached_coordinates sample_env ''New York'' ''USA'' fresh =
     ((Inr new_york,
       [GetCachedCoordinates ''New York'' ''USA'', GetCoordinates ''New York'' ''USA'']),
      snd (get_cached_coordinates sample_env ''New York'' ''USA'' fresh))"
    by (simp add: resolve_first)
  from first get_cached_coordinates_idempotent [OF first] show ?thesis by simp
qed

text \<open>
  The resolver alone: after a successful resolution, any query with the same key is a hit
  that leaves the engine as it is.
\<close>

lemma resolve_hit:
  assumes "resolve C c1 k1 w = (Inr p, w')" and "geocode_key C c2 k2 = geocode_key C c1 k1"
  shows "resolve C c2 k2 w' = (Inr p, w')"
  using assms
  by (auto simp: resolve_def root_dir_def split: option.splits)




text \<open>
  In the sample installation, white space put around a name is an instance of such a
  difference.
\<close>

lemma strip_padding:
  assumes "list_all is_space l" and "list_all is_space r"
  shows "strip (l @ s @ r) = strip s"
proof -
  have left: "dropWhile is_space (l @ s @ r) = dropWhile is_space (s @ r)"
    using assms(1) by (simp add: list_all_iff)
  show ?thesis
  proof (cases "list_all is_space s")
    case True
    with assms(2) have right: "dropWhile is_space (s @ r) = []"
      and mid: "dropWhile is_space s = []"
      by (auto simp: list_all_iff)
    show ?thesis by (simp add: strip_def left right mid)
  next
    case False
    then obtain x where x: "x \<in> set s" "\<not> is_space x"
      by (auto simp: list_all_iff)
    then have mid: "dropWhile is_space (s @ r) = dropWhile is_space s @ r"
      by simp
    have "dropWhile is_space (rev r @ rev (dropWhile is_space s)) =
        dropWhile is_space (rev (dropWhile is_space s))"
      using assms(2) by (intro dropWhile_append2) (simp add: list_all_iff)
    with left mid show ?thesis by (simp add: strip_def)
  qed
qed

lemma padded_variant:
  assumes "list_all is_space l" and "list_all is_space r"
  shows "differ_only_in_space_or_case sample_caps s (l @ s @ r)"
  using strip_padding [OF assms, of s]
  by (simp add: differ_only_in_space_or_case_def sample_caps_def)

text \<open>
  Through the dashboard. Its memo table is keyed by the strings as typed, so a variant
  of a memoised query is not found there and goes on to the resolver; when the first
  query went through the resolver too, the variant is answered from the geocode cache.
\<close>

lemma variant_through_dashboard:
  assumes "get_coordinates E = resolve C"
    and "differ_only_in_space_or_case C c1 c2" and "differ_only_in_space_or_case C k1 k2"
    and "coord_memo s (c1, k1) = None" and "coord_memo s (c2, k2) = None"
    and "get_cached_coordinates E c1 k1 s = ((Inr p, evs), s')"
  shows "fst (fst (get_cached_coordinates E c2 k2 s')) = Inr p
    \<and> fetches (world (snd (get_cached_coordinates E c2 k2 s'))) = fetches (world s')"
proof -
  have key: "geocode_key C c2 k2 = geocode_key C c1 k1"
    using assms(2,3)
    by (simp add: geocode_key_def normalize_name_def differ_only_in_space_or_case_def)
  obtain w' where first: "resolve C c1 k1 (world s) = (Inr p, w')"
    and s': "s' = s\<lparr>coord_memo := (coord_memo s)((c1, k1) \<mapsto> p), world := w'\<rparr>"
    using assms(1,4,6)
    by (auto simp: get_cached_coordinates_def split: sum.splits prod.splits)
  have hit: "resolve C c2 k2 w' = (Inr p, w')"
    by (rule resolve_hit [OF first key])
  show ?thesis
    using assms(1,5) hit s' by (simp add: get_cached_coordinates_def)
qed

subsection \<open>Clearing the cache\<close>

text \<open>
  The memo table of \<open>get_cached_coordinates\<close> is not part of the cache directory:
  whatever the environment, a point resolved before the directory is removed and
  recreated is still returned afterwards, without a call of the resolver.
\<close>

lemma memo_outlives_clear_cache:
  assumes "get_cached_coordinates E c k s = ((Inr p, evs), s')"
  shows "get_cached_coordinates E c k (clear_cache E s') =
           ((Inr p, [GetCachedCoordinates c k]), clear_cache E s')"
  using assms
  by (auto simp: get_cached_coordinates_def clear_cache_def
        split: option.splits sum.splits prod.splits)

text \<open>
  C2. Three clicks on the sample installation, with the widgets at their initial values:
  "Render Map", "Clear Cache", "Render Map". The first render resolves New York through
  the resolver (one query to the geocoder). The clear removes and recreates the cache
  directory, which is empty afterwards. The second render enters the memoised wrapper
  only: the resolver is not called and the geocoder receives no second query, although
  the geocode entry is gone from the directory.
\<close>

theorem clear_cache_keeps_memo:
  "run_clicks sample_env default_inputs [RenderMap, ClearCache, RenderMap] fresh =
     ([[GetCachedCoordinates ''New York'' ''USA'', GetCoordinates ''New York'' ''USA'',
        GetCachedTheme ''terracotta'', LoadTheme ''terracotta'', NamedTemporaryFile ''.png'',
        CreatePoster (poster_call default_inputs new_york ''terracotta.json''
           ''/tmp/tmpposter.png'' None)],
       [Rmtree, Mkdir, StSuccess, StInfo],
       [GetCachedCoordinates ''New York'' ''USA'', GetCachedTheme ''terracotta'',
        NamedTemporaryFile ''.png'',
        CreatePoster (poster_call default_inputs new_york ''terracotta.json''
           ''/tmp/tmpposter.png'' None)]],
      rendered_once\<lparr>world := \<lparr>cache_root = Some empty_dir,
                                fetches = [GeocodeFetch ''New York'' ''USA'']\<rparr>\<rparr>)"
  by (simp add: first_run second_run third_run)

text \<open>
  After the clear the geocode entry is gone while the memo entry stays: a variant of the
  memoised query finds neither and is sent to the geocoder.
\<close>

lemma variant_after_clear_cache:
  "fetches (world (snd (get_cached_coordinates sample_env ''new york'' '' USA ''
      (snd (run_clicks sample_env default_inputs [RenderMap, ClearCache] fresh))))) =
     [GeocodeFetch ''New York'' ''USA'', GeocodeFetch ''new york'' '' USA '']"
  by (simp add: first_run second_run)
     (simp add: get_cached_coordinates_def rendered_once_def sample_env_def sample_caps_def
        engine_defs geocode_key_def normalize_name_def strip_def is_space_def casefold_def
        casefold_char_def)

subsection \<open>Fonts\<close>

text \<open>
  The dashboard has no fallback of its own: when \<^verbatim>\<open>load_fonts\<close> raises, the handler of
  \<open>generate\<close> reports the error and the render is given up. A font that cannot be
  fetched leaves the render alive only because the font manager returns a font set
  instead of raising.
\<close>

lemma raising_load_fonts_aborts:
  assumes "font_family inp \<noteq> []"
    and "handle_coordinates E inp s = ((Inr point, ev0), s0)"
    and "get_cached_theme E (selected_theme inp) s0 = ((Inr theme, ev1), s1)"
    and "named_temporary_file E (''.'' @ fmt_name (output_format inp)) (world s1) =
           (Inr path, w2)"
    and "load_fonts E (font_family inp) w2 = (Inl e, w3)"
  shows "generate E inp s =
           ((None,
             ev0 @ ev1 @ [NamedTemporaryFile (''.'' @ fmt_name (output_format inp)),
               LoadFonts (font_family inp), StError e]),
            s1\<lparr>world := w3\<rparr>)"
  using assms
  by (simp add: generate_def generate_body_def render_point_def custom_fonts_def)

text \<open>The compositor looks at the fonts for the labels only, not to decide whether it fails.\<close>

lemma compose_ignores_fonts: "compose K (a\<lparr>kw_fonts := fonts\<rparr>) = compose K a"
  by (simp add: compose_def split: option.splits)

text \<open>
  C5. A render with a requested font family whose fetch fails (the family is not in the
  font cache and the catalog has no asset for it), the steps before it having succeeded.
  The font manager and the compositor are the ones of the specification. Then:
  the poster routine is called once, with the temporary path as output file, the loaded
  theme, and a font set that stands for the theme's default font and is marked as
  fallback; the labels are drawn in the default font of that theme; the run reports no
  error but the compositor's own, and returns the path of the artifact exactly when the
  compositor produces it; and the result is the one of the same render with no font
  family requested, so the failed fetch does not fail the render.
\<close>

theorem font_failure_falls_back:
  assumes "load_fonts E = font_loader C" and "create_poster E = poster_routine K"
    and "font_family inp \<noteq> []"
    and "handle_coordinates E inp s = ((Inr point, ev0), s0)"
    and "get_cached_theme E (selected_theme inp) s0 = ((Inr theme, ev1), s1)"
    and "named_temporary_file E (''.'' @ fmt_name (output_format inp)) (world s1) =
           (Inr path, w2)"
    and "font_ns (root_dir w2) (font_family inp) = None"
    and "font_catalog C (font_family inp) = None"
  shows "let fallback = \<lparr>requested_family = Some (font_family inp), resolved = ThemeDefault,
                          is_fallback = True\<rparr>;
             a = poster_call inp point theme path (Some fallback)
         in generate E inp s =
              ((case compose K a of Inl e \<Rightarrow> None | Inr art \<Rightarrow> Some (art_path art),
                ev0 @ ev1 @ [NamedTemporaryFile (''.'' @ fmt_name (output_format inp)),
                  LoadFonts (font_family inp), CreatePoster a]
                @ (case compose K a of Inl e \<Rightarrow> [StError e] | Inr art \<Rightarrow> [])),
               s1\<lparr>world := w2\<lparr>fetches := fetches w2 @ [FontFetch (font_family inp)]\<rparr>\<rparr>)
            \<and> kw_fonts a = Some fallback
            \<and> kw_output_file a = path
            \<and> kw_theme a = theme
            \<and> label_font K a = theme_font K theme
            \<and> fst (fst (generate E inp s)) =
                fst (fst (generate E (inp\<lparr>font_family := []\<rparr>) s))"
proof -
  let ?suffix = "''.'' @ fmt_name (output_format inp)"
  let ?fb = "\<lparr>requested_family = Some (font_family inp), resolved = ThemeDefault,
              is_fallback = True\<rparr>"
  let ?a = "poster_call inp point theme path (Some ?fb)"
  let ?w3 = "w2\<lparr>fetches := fetches w2 @ [FontFetch (font_family inp)]\<rparr>"
  let ?plain = "inp\<lparr>font_family := []\<rparr>"
  let ?b = "poster_call ?plain point theme path None"
  have fonts: "custom_fonts E inp w2 = ((Inr (Some ?fb), [LoadFonts (font_family inp)]), ?w3)"
    using assms(1,3,7,8)
    by (simp add: custom_fonts_def font_loader_def resolve_font_def)
  have call: "create_poster E ?a ?w3 =
      (case compose K ?a of Inl e \<Rightarrow> (Inl e, ?w3) | Inr art \<Rightarrow> (Inr (), ?w3))"
    using assms(2) by (simp add: poster_routine_def)
  have path: "art_path art = path" if "compose K ?a = Inr art" for art
    using that by (auto simp: compose_def poster_call_def split: option.splits if_splits)
  have run: "generate E inp s =
      ((case compose K ?a of Inl e \<Rightarrow> None | Inr art \<Rightarrow> Some (art_path art),
        ev0 @ ev1 @ [NamedTemporaryFile ?suffix, LoadFonts (font_family inp), CreatePoster ?a]
        @ (case compose K ?a of Inl e \<Rightarrow> [StError e] | Inr art \<Rightarrow> [])),
       s1\<lparr>world := ?w3\<rparr>)"
  proof (cases "compose K ?a")
    case (Inl e)
    with assms(4,5,6) fonts call show ?thesis
      by (simp add: generate_def generate_body_def render_point_def)
  next
    case (Inr art)
    with assms(4,5,6) fonts call path [OF Inr] show ?thesis
      by (simp add: generate_def generate_body_def render_point_def)
  qed
  have "handle_coordinates E ?plain = handle_coordinates E inp"
    by (intro ext) (simp add: handle_coordinates_def cong: if_cong option.case_cong)
  with assms(4) have coords_plain: "handle_coordinates E ?plain s = ((Inr point, ev0), s0)"
    by simp
  have fonts_plain: "custom_fonts E ?plain w2 = ((Inr None, []), w2)"
    by (simp add: custom_fonts_def)
  have call_plain: "create_poster E ?b w2 =
      (case compose K ?b of Inl e \<Rightarrow> (Inl e, w2) | Inr art \<Rightarrow> (Inr (), w2))"
    using assms(2) by (simp add: poster_routine_def)
  have plain: "?b = ?a\<lparr>kw_fonts := None\<rparr>"
    by (simp add: poster_call_def cong: if_cong)
  have same: "compose K ?b = compose K ?a"
    unfolding plain by (rule compose_ignores_fonts)
  have run_plain: "fst (fst (generate E ?plain s)) =
      (case compose K ?a of Inl e \<Rightarrow> None | Inr art \<Rightarrow> Some (art_path art))"
  proof (cases "compose K ?a")
    case (Inl e)
    with assms(5,6) coords_plain fonts_plain call_plain same show ?thesis
      by (simp add: generate_def generate_body_def render_point_def)
  next
    case (Inr art)
    with assms(5,6) coords_plain fonts_plain call_plain same path [OF Inr] show ?thesis
      by (simp add: generate_def generate_body_def render_point_def)
  qed
  have pinned: "kw_fonts ?a = Some ?fb" "kw_output_file ?a = path" "kw_theme ?a = theme"
    by (simp_all add: poster_call_def)
  have font: "label_font K ?a = theme_font K theme"
    by (simp add: label_font_def poster_call_def)
  from run run_plain pinned font show ?thesis
    by (simp add: Let_def)
qed

theorem font_failure_falls_back_witness:
  "font_family font_inputs \<noteq> []
   \<and> font_catalog sample_caps (font_family font_inputs) = None
   \<and> fst (fst (generate studio_env font_inputs fresh)) = Some ''/tmp/tmpposter.svg''
   \<and> map kw_fonts (poster_calls (snd (fst (generate studio_env font_inputs fresh)))) =
       [Some \<lparr>requested_family = Some ''No Such Font'', resolved = ThemeDefault,
               is_fallback = True\<rparr>]
   \<and> map kw_output_file (poster_calls (snd (fst (generate studio_env font_inputs fresh)))) =
       [''/tmp/tmpposter.svg'']
   \<and> map (label_font sample_workshop)
         (poster_calls (snd (fst (generate studio_env font_inputs fresh)))) =
       [''terracotta.json#default'']
   \<and> fst (fst (generate studio_env (font_inputs\<lparr>font_family := []\<rparr>) fresh)) =
       Some ''/tmp/tmpposter.svg''"
proof -
  let ?s0 = "fresh\<lparr>coord_memo := [(''New York'', ''USA'') \<mapsto> new_york],
        world := \<lparr>cache_root =
                    Some (empty_dir\<lparr>geocode_ns := [(''new york'', ''usa'') \<mapsto> new_york]\<rparr>),
                  fetches = [GeocodeFetch ''New York'' ''USA'']\<rparr>\<rparr>"
  let ?s1 = "?s0\<lparr>theme_memo := [''terracotta'' \<mapsto> ''terracotta.json'']\<rparr>"
  let ?fb = "\<lparr>requested_family = Some (font_family font_inputs), resolved = ThemeDefault,
              is_fallback = True\<rparr> :: string font_set"
  let ?a = "poster_call font_inputs new_york ''terracotta.json'' ''/tmp/tmpposter.svg''
              (Some ?fb)"
  have fields: "font_family font_inputs = ''No Such Font''" "city font_inputs = ''New York''"
    "country font_inputs = ''USA''" "selected_theme font_inputs = ''terracotta''"
    "output_format font_inputs = Svg" "override_lat font_inputs = []"
    by (simp_all add: font_inputs_def default_inputs_def)
  have loader: "load_fonts studio_env = font_loader sample_caps"
    and routine: "create_poster studio_env = poster_routine sample_workshop"
    by (simp_all add: studio_env_def sample_env_def engine_env_def)
  have family: "font_family font_inputs \<noteq> []"
    by (simp add: fields)
  have coords: "handle_coordinates studio_env font_inputs fresh =
      ((Inr new_york,
        [GetCachedCoordinates ''New York'' ''USA'', GetCoordinates ''New York'' ''USA'']), ?s0)"
    by (simp add: handle_coordinates_def get_cached_coordinates_def fields studio_env_def
          sample_env_def sample_caps_def fresh_def engine_defs sample_names)
  have theme: "get_cached_theme studio_env (selected_theme font_inputs) ?s0 =
      ((Inr ''terracotta.json'', [GetCachedTheme ''terracotta'', LoadTheme ''terracotta'']), ?s1)"
    by (simp add: get_cached_theme_def fields studio_env_def sample_env_def engine_env_def
          fresh_def)
  have tmp: "named_temporary_file studio_env (''.'' @ fmt_name (output_format font_inputs))
      (world ?s1) = (Inr ''/tmp/tmpposter.svg'', world ?s1)"
    by (simp add: fields studio_env_def sample_env_def engine_env_def)
  have miss: "font_ns (root_dir (world ?s1)) (font_family font_inputs) = None"
    by (simp add: root_dir_def empty_dir_def)
  have fails: "font_catalog sample_caps (font_family font_inputs) = None"
    by (simp add: sample_caps_def fields)
  have made: "compose sample_workshop ?a =
      Inr \<lparr>art_path = ''/tmp/tmpposter.svg'', art_format = Svg\<rparr>"
    by (simp add: compose_def sample_workshop_def poster_call_def fields)
  note fallback =
    font_failure_falls_back [OF loader routine family coords theme tmp miss fails,
      unfolded Let_def]
  from fallback have same:
    "fst (fst (generate studio_env font_inputs fresh)) =
     fst (fst (generate studio_env (font_inputs\<lparr>font_family := []\<rparr>) fresh))"
    by blast
  from fallback made have run:
    "fst (fst (generate studio_env font_inputs fresh)) = Some ''/tmp/tmpposter.svg''"
    "poster_calls (snd (fst (generate studio_env font_inputs fresh))) = [?a]"
    by (simp_all add: poster_calls_append)
  from fallback have args: "kw_fonts ?a = Some ?fb" "kw_output_file ?a = ''/tmp/tmpposter.svg''"
    "label_font sample_workshop ?a = theme_font sample_workshop ''terracotta.json''"
    by blast+
  from same run args family fails show ?thesis
    by (simp add: fields sample_workshop_def)
qed

end
